theory Spec2Isabelle
  imports Main
begin

section \<open>Python values used by the handlers\<close>

text \<open>
  The service is written in Python (FastAPI). Exceptions become values of a sum type:
  a function that can raise returns \<open>exn + 'a\<close>, with \<open>Inl\<close> for the exception.
  \<open>CredentialsInvalid\<close> and \<open>TokenExpired\<close> stand for the two HTTP exceptions
  \<open>credentials_exception\<close> and \<open>token_expired_exception\<close> of
  \<open>app.core.exception\<close>; \<open>PlainException\<close> is a bare \<open>Exception(...)\<close>;
  \<open>StorageError\<close> is any exception raised by the database session;
  \<open>ValidationError\<close> is the one of the schema library; \<open>TimestampError\<close> is what
  \<open>datetime.fromtimestamp\<close> raises out of range. \<open>ValueError\<close> and
  \<open>PlainException\<close> carry the message that \<open>str(e)\<close> returns.
\<close>

datatype exn =
    CredentialsInvalid
  | TokenExpired
  | ValueError string
  | TypeError
  | AttributeError
  | ValidationError
  | PlainException string
  | StorageError
  | DecryptionError
  | TimestampError

text \<open>
  A Python string is a sequence of code points; a character here is a code point below
  256, and every function of this section is the Python function on such strings.
\<close>

text \<open>Truthiness of an optional string: \<open>not s\<close> holds for \<open>None\<close> and for the empty string.\<close>

definition py_not :: "string option \<Rightarrow> bool" where
  "py_not s = (case s of None \<Rightarrow> True | Some v \<Rightarrow> v = [])"

text \<open>
  \<open>str.lower()\<close> as far as the comparison with \<open>bearer\<close> needs it: the ASCII letters
  are lowered, every other character is left as it is (no other character lowers to an
  ASCII letter).
\<close>

definition lower_char :: "char \<Rightarrow> char" where
  "lower_char c =
     (case map_of (zip ''ABCDEFGHIJKLMNOPQRSTUVWXYZ'' ''abcdefghijklmnopqrstuvwxyz'') c of
        None \<Rightarrow> c
      | Some d \<Rightarrow> d)"

definition lower :: "string \<Rightarrow> string" where
  "lower s = map lower_char s"

text \<open>
  \<open>int(s)\<close> on a string: surrounding white space is stripped, one sign is allowed, then
  decimal digits, where single underscores may separate digits. Anything else is a
  \<open>ValueError\<close>, here \<open>None\<close>. Below 256 the white space of Python is the code points
  9 to 13, 28 to 32, 133 and 160, and the decimal digits are the ASCII ones. The limit
  that recent interpreters put on the number of digits (4300 by default) is not part of
  this function: it is \<open>int\<close> with that limit switched off.
\<close>

definition digit_val :: "char \<Rightarrow> nat option" where
  "digit_val c = map_of (zip ''0123456789'' [0, 1, 2, 3, 4, 5, 6, 7, 8, 9]) c"

definition is_space :: "char \<Rightarrow> bool" where
  "is_space c =
     (c \<in> set [CHR 0x09, CHR 0x0A, CHR 0x0B, CHR 0x0C, CHR 0x0D,
                CHR 0x1C, CHR 0x1D, CHR 0x1E, CHR 0x1F, CHR 0x20, CHR 0x85, CHR 0xA0])"

definition strip :: "string \<Rightarrow> string" where
  "strip s = rev (dropWhile is_space (rev (dropWhile is_space s)))"

text \<open>
  \<open>parse_digits acc after_digit s\<close> reads the digits of \<open>s\<close>; \<open>after_digit\<close> tells
  whether the previous character was a digit, which is where an underscore may stand and
  where the literal may end.
\<close>

fun parse_digits :: "nat \<Rightarrow> bool \<Rightarrow> string \<Rightarrow> nat option" where
  "parse_digits acc after_digit [] = (if after_digit then Some acc else None)"
| "parse_digits acc after_digit (c # cs) =
     (if c = CHR ''_'' then (if after_digit then
         (case cs of [] \<Rightarrow> None | _ \<Rightarrow> parse_digits acc False cs) else None)
      else (case digit_val c of
              None \<Rightarrow> None
            | Some d \<Rightarrow> parse_digits (10 * acc + d) True cs))"

definition py_int :: "string \<Rightarrow> int option" where
  "py_int s =
     (case strip s of
        [] \<Rightarrow> None
      | c # cs \<Rightarrow>
          if c = CHR ''-'' then map_option (\<lambda>n. - int n) (parse_digits 0 False cs)
          else if c = CHR ''+'' then map_option int (parse_digits 0 False cs)
          else map_option int (parse_digits 0 False (c # cs)))"

text \<open>\<open>str(n)\<close> on an integer: the decimal digits, with a minus sign when negative.\<close>

fun str_nat :: "nat \<Rightarrow> string" where
  "str_nat n =
     (if n < 10 then [''0123456789'' ! n]
      else str_nat (n div 10) @ [''0123456789'' ! (n mod 10)])"

definition py_str :: "int \<Rightarrow> string" where
  "py_str i = (if i < 0 then CHR ''-'' # str_nat (nat (- i)) else str_nat (nat i))"

text \<open>
  \<open>repr(s)\<close> on a string. The quote is the apostrophe, or the double quote when the
  string has an apostrophe and no double quote. The quote and the backslash are
  escaped, tab, line feed and carriage return are written \<open>\t\<close>, \<open>\n\<close>, \<open>\r\<close>, and a
  code point that is not printable (below 32, from 127 to 160, and 173) is written
  \<open>\xNN\<close> in lower-case hexadecimal.
\<close>

definition printable :: "char \<Rightarrow> bool" where
  "printable c =
     (let n = (of_char c :: nat) in \<not> (n < 32 \<or> (127 \<le> n \<and> n \<le> 160) \<or> n = 173))"

definition repr_char :: "char \<Rightarrow> char \<Rightarrow> string" where
  "repr_char quote c =
     (if c = quote \<or> c = CHR 0x5C then [CHR 0x5C, c]
      else if c = CHR 0x09 then [CHR 0x5C, CHR ''t'']
      else if c = CHR 0x0A then [CHR 0x5C, CHR ''n'']
      else if c = CHR 0x0D then [CHR 0x5C, CHR ''r'']
      else if printable c then [c]
      else [CHR 0x5C, CHR ''x'',
            ''0123456789abcdef'' ! ((of_char c :: nat) div 16),
            ''0123456789abcdef'' ! ((of_char c :: nat) mod 16)])"

definition py_repr :: "string \<Rightarrow> string" where
  "py_repr s =
     (let quote = (if CHR 0x27 \<in> set s \<and> CHR 0x22 \<notin> set s then CHR 0x22 else CHR 0x27)
      in [quote] @ concat (map (repr_char quote) s) @ [quote])"

text \<open>
  The \<open>ValueError\<close> that \<open>int(s)\<close> raises: its message ends with the \<open>repr\<close> of the
  string, cut after 200 characters.
\<close>

definition invalid_literal :: "string \<Rightarrow> exn" where
  "invalid_literal s = ValueError (''invalid literal for int() with base 10: '' @ take 200 (py_repr s))"

text \<open>
  A \<open>datetime\<close> is represented by its epoch seconds. \<open>datetime.fromtimestamp\<close> gives
  the local time of the server, whose offset from UTC is \<open>offset\<close> seconds, and raises
  when that time lies outside the years 1 to 9999.
\<close>

type_synonym datetime = int

definition fromtimestamp :: "int \<Rightarrow> int \<Rightarrow> exn + datetime" where
  "fromtimestamp offset t =
     (if - 62135596800 \<le> t + offset \<and> t + offset \<le> 253402300799 then Inr t
      else Inl TimestampError)"

section \<open>Token verification (dependencies/auth.py)\<close>

subsection \<open>The JWT library and the TokenUser schema\<close>

text \<open>
  A decoded payload is a dictionary from claim names to JSON values. The verifiers read
  the subject \<open>sub\<close> and the expiry \<open>exp\<close> of it, and pass all of it to the schema
  as keyword arguments.
\<close>

datatype json = JInt int | JStr string

type_synonym claims = "string \<rightharpoonup> json"

definition sub_claim :: "claims \<Rightarrow> json option" where
  "sub_claim c = c ''sub''"

definition exp_claim :: "claims \<Rightarrow> json option" where
  "exp_claim c = c ''exp''"

text \<open>
  The settings object and the clock. \<open>jws_verify token key algorithms\<close> is the library's
  verification of the signature and decoding of the payload, together with the checks
  the library makes before it looks at the expiry; \<open>None\<close> means it raised
  \<open>JWTError\<close>.
\<close>

record settings =
  jwt_access_secret_key :: string
  jwt_algorithm :: string
  jws_verify :: "string \<Rightarrow> string \<Rightarrow> string list \<Rightarrow> claims option"
  utcnow :: int

datatype jwt_error = ExpiredSignatureError | JWTClaimsError | JWTError

definition int_json :: "json \<Rightarrow> int option" where
  \<comment> \<open>\<open>int(v)\<close> on a claim\<close>
  "int_json v = (case v of JInt n \<Rightarrow> Some n | JStr s \<Rightarrow> py_int s)"

text \<open>
  Modelled from the spec: the expiry check of the JWT library, which is not part of the
  sources. Section 4.4: a valid signature whose expiry check fails is an expired token.
  The check compares the integer \<open>exp\<close> claim with the current time; an absent claim
  passes, a claim that is no integer is a claims error.
\<close>

definition validate_exp :: "int \<Rightarrow> claims \<Rightarrow> jwt_error option" where
  "validate_exp now c =
     (case exp_claim c of
        None \<Rightarrow> None
      | Some v \<Rightarrow>
          (case int_json v of
             None \<Rightarrow> Some JWTClaimsError
           | Some e \<Rightarrow> if e < now then Some ExpiredSignatureError else None))"

text \<open>
  Modelled from the spec: the subject check of the JWT library, which is not part of the
  sources. Section 3: the subject is the stringified user id, so a subject that is
  present must be a string.
\<close>

definition validate_sub :: "claims \<Rightarrow> jwt_error option" where
  "validate_sub c =
     (case sub_claim c of
        None \<Rightarrow> None
      | Some (JStr s) \<Rightarrow> None
      | Some (JInt n) \<Rightarrow> Some JWTClaimsError)"

text \<open>
  Modelled from the spec: \<open>jwt.decode\<close> of the JWT library, which is not part of the
  sources. Section 4.4 gives its transitions: a failed signature verification is an
  invalid credential; with a valid signature the expiry is checked when the option
  \<open>verify_exp\<close> is true and skipped when it is false; the decoded claims are the
  result.
\<close>

definition jwt_decode :: "settings \<Rightarrow> string \<Rightarrow> string \<Rightarrow> string list \<Rightarrow> bool \<Rightarrow> jwt_error + claims" where
  "jwt_decode st token key algorithms verify_exp =
     (case jws_verify st token key algorithms of
        None \<Rightarrow> Inl JWTError
      | Some c \<Rightarrow>
          (case (if verify_exp then validate_exp (utcnow st) c else None) of
             Some e \<Rightarrow> Inl e
           | None \<Rightarrow>
               (case validate_sub c of
                  Some e \<Rightarrow> Inl e
                | None \<Rightarrow> Inr c)))"

record TokenUser =
  tu_sub :: string
  tu_access_token :: string
  tu_refresh_token :: "string option"

text \<open>
  The call \<open>TokenUser(**payload, access_token=..., refresh_token=...)\<close>. The keyword
  \<open>access_token\<close> is always given; \<open>refresh_token\<close> is given by the three verifiers
  that have one and is \<open>None\<close> here for the bearer verifier, which does not give it.
  Python raises \<open>TypeError\<close> before the schema runs when the payload has a claim with
  the name of a keyword that is given as well.

  Modelled from the spec: the schema \<open>TokenUser\<close> of \<open>schemas.token\<close> is not part of
  the sources. Section 3 gives its fields: \<open>sub\<close>, \<open>access_token\<close> and an optional
  \<open>refresh_token\<close>, which comes from the payload when the keyword is not given.
  Validation fails when the subject is absent or a field is not a string.
\<close>

definition TokenUser_new :: "claims \<Rightarrow> string \<Rightarrow> string option \<Rightarrow> exn + TokenUser" where
  "TokenUser_new payload access_token refresh_token =
     (if payload ''access_token'' \<noteq> None
         \<or> (refresh_token \<noteq> None \<and> payload ''refresh_token'' \<noteq> None)
      then Inl TypeError
      else
        (case sub_claim payload of
           Some (JStr s) \<Rightarrow>
             (case refresh_token of
                Some r \<Rightarrow>
                  Inr \<lparr>tu_sub = s, tu_access_token = access_token, tu_refresh_token = Some r\<rparr>
              | None \<Rightarrow>
                  (case payload ''refresh_token'' of
                     None \<Rightarrow>
                       Inr \<lparr>tu_sub = s, tu_access_token = access_token, tu_refresh_token = None\<rparr>
                   | Some (JStr r) \<Rightarrow>
                       Inr \<lparr>tu_sub = s, tu_access_token = access_token, tu_refresh_token = Some r\<rparr>
                   | Some (JInt n) \<Rightarrow> Inl ValidationError))
         | _ \<Rightarrow> Inl ValidationError))"

text \<open>
  \<open>get_authorization_scheme_param\<close> of the web framework: an absent or empty header
  gives two empty strings, otherwise the header is split at its first blank.
\<close>

definition get_authorization_scheme_param :: "string option \<Rightarrow> string \<times> string" where
  "get_authorization_scheme_param authorization =
     (if py_not authorization then ([], [])
      else (let v = the authorization
            in (takeWhile (\<lambda>c. c \<noteq> CHR '' '') v, drop 1 (dropWhile (\<lambda>c. c \<noteq> CHR '' '') v))))"

subsection \<open>The four verifiers\<close>

text \<open>
  Each verifier is a callable class; its \<open>__call__\<close> is modelled with the settings as
  first argument. The handler order of the source is kept: the inner handler catches
  the validation error and lets any other exception of the construction pass, then
  \<open>ExpiredSignatureError\<close> is tried before \<open>JWTError\<close>, which is the base class of
  the three library errors; neither catches a \<open>TypeError\<close>.
\<close>

definition AuthorizeCookieUser :: "settings \<Rightarrow> string option \<Rightarrow> string option \<Rightarrow> exn + TokenUser" where
  "AuthorizeCookieUser st access_token refresh_token =
     (if py_not access_token \<or> py_not refresh_token then Inl CredentialsInvalid
      else
        (case jwt_decode st (the access_token) (jwt_access_secret_key st) [jwt_algorithm st] True of
           Inr payload \<Rightarrow>
             (case TokenUser_new payload (the access_token) refresh_token of
                Inr token_data \<Rightarrow> Inr token_data
              | Inl ValidationError \<Rightarrow> Inl CredentialsInvalid
              | Inl e \<Rightarrow> Inl e)
         | Inl ExpiredSignatureError \<Rightarrow> Inl TokenExpired
         | Inl _ \<Rightarrow> Inl CredentialsInvalid))"

definition AuthorizeRefreshCookieUser :: "settings \<Rightarrow> string option \<Rightarrow> string option \<Rightarrow> exn + TokenUser" where
  "AuthorizeRefreshCookieUser st access_token refresh_token =
     (if py_not access_token \<or> py_not refresh_token then Inl CredentialsInvalid
      else
        (let verify_exp = False
         in case jwt_decode st (the access_token) (jwt_access_secret_key st) [jwt_algorithm st] verify_exp of
           Inr payload \<Rightarrow>
             (case TokenUser_new payload (the access_token) refresh_token of
                Inr token_data \<Rightarrow> Inr token_data
              | Inl ValidationError \<Rightarrow> Inl CredentialsInvalid
              | Inl e \<Rightarrow> Inl e)
         | Inl ExpiredSignatureError \<Rightarrow> Inl TokenExpired
         | Inl _ \<Rightarrow> Inl CredentialsInvalid))"

definition AuthorizeTokenUser :: "settings \<Rightarrow> string option \<Rightarrow> exn + TokenUser" where
  "AuthorizeTokenUser st authorization =
     (let (scheme, token) = get_authorization_scheme_param authorization
      in if lower scheme \<noteq> ''bearer'' \<or> token = [] then Inl CredentialsInvalid
         else
           (case jwt_decode st token (jwt_access_secret_key st) [jwt_algorithm st] True of
              Inr payload \<Rightarrow>
                (case TokenUser_new payload token None of
                   Inr token_data \<Rightarrow> Inr token_data
                 | Inl ValidationError \<Rightarrow> Inl CredentialsInvalid
                 | Inl e \<Rightarrow> Inl e)
            | Inl ExpiredSignatureError \<Rightarrow> Inl TokenExpired
            | Inl _ \<Rightarrow> Inl CredentialsInvalid))"

text \<open>The request body of the refresh endpoint, \<open>TokenRefreshRequestSchema\<close>.\<close>

record TokenRefreshRequestSchema =
  rq_access_token :: "string option"
  rq_refresh_token :: "string option"

definition AuthorizeTokenRefresh :: "settings \<Rightarrow> TokenRefreshRequestSchema \<Rightarrow> exn + TokenUser" where
  "AuthorizeTokenRefresh st token =
     (if py_not (rq_access_token token) \<or> py_not (rq_refresh_token token) then Inl CredentialsInvalid
      else
        (let verify_exp = False
         in case jwt_decode st (the (rq_access_token token)) (jwt_access_secret_key st)
                   [jwt_algorithm st] verify_exp of
           Inr payload \<Rightarrow>
             (case TokenUser_new payload (the (rq_access_token token)) (rq_refresh_token token) of
                Inr token_data \<Rightarrow> Inr token_data
              | Inl ValidationError \<Rightarrow> Inl CredentialsInvalid
              | Inl e \<Rightarrow> Inl e)
         | Inl ExpiredSignatureError \<Rightarrow> Inl TokenExpired
         | Inl _ \<Rightarrow> Inl CredentialsInvalid))"

section \<open>Persistence: the session and the two data access layers\<close>

subsection \<open>Rows, schemas and the session\<close>

text \<open>A row of the \<open>token\<close> table, with the columns the handlers write.\<close>

record Token =
  tk_user_id :: int
  tk_access_token :: string
  tk_refresh_token :: string
  tk_refresh_token_key :: string
  tk_issued_at :: datetime
  tk_expires_at :: datetime

record InsertTokenSchema =
  it_user_id :: int
  it_access_token :: string
  it_refresh_token :: string
  it_refresh_token_key :: string
  it_issued_at :: datetime
  it_expires_at :: datetime

record UpdateTokenSchema =
  ut_user_id :: int
  ut_old_access_token :: string
  ut_new_access_token :: string
  ut_refresh_token_key :: string
  ut_refresh_token :: string
  ut_expires_at :: datetime

record User =
  u_id :: int
  u_credential :: string

record database =
  d_tokens :: "Token list"
  d_last_login :: "int \<rightharpoonup> string"
  d_users :: "string \<rightharpoonup> User"

datatype db_op =
    OpGetUser | OpUpdateLastLogin
  | OpInsert | OpExistsByUserId | OpDeleteByUserId
  | OpDelete
  | OpCommit

datatype event = Executed db_op | Committed | RolledBack | Closed

text \<open>
  An \<open>AsyncSession\<close> is one transaction over the database: \<open>db\<close> is the committed
  state, \<open>tokens\<close> and \<open>last_login\<close> are the tables as this transaction sees them,
  \<open>fails\<close> tells which statements the persistence layer fails during this request, and
  \<open>log\<close> records what the session was asked to do, in order.
\<close>

record session =
  db :: database
  tokens :: "Token list"
  last_login :: "int \<rightharpoonup> string"
  fails :: "db_op \<Rightarrow> bool"
  log :: "event list"

definition get_session :: "database \<Rightarrow> (db_op \<Rightarrow> bool) \<Rightarrow> session" where
  "get_session d f = \<lparr>db = d, tokens = d_tokens d, last_login = d_last_login d, fails = f, log = []\<rparr>"

definition executed :: "db_op \<Rightarrow> session \<Rightarrow> session" where
  "executed op s = s\<lparr>log := log s @ [Executed op]\<rparr>"

definition session_commit :: "session \<Rightarrow> exn + session" where
  "session_commit s =
     (if fails s OpCommit then Inl StorageError
      else Inr (s\<lparr>db := (db s)\<lparr>d_tokens := tokens s, d_last_login := last_login s\<rparr>,
                 log := log s @ [Committed]\<rparr>))"

definition session_rollback :: "session \<Rightarrow> session" where
  "session_rollback s =
     s\<lparr>tokens := d_tokens (db s), last_login := d_last_login (db s), log := log s @ [RolledBack]\<rparr>"

definition session_close :: "session \<Rightarrow> session" where
  "session_close s =
     s\<lparr>tokens := d_tokens (db s), last_login := d_last_login (db s), log := log s @ [Closed]\<rparr>"

subsection \<open>RefreshTokenDAL as defined in db/crud/crud_token.py\<close>

text \<open>
  The class defines three methods. \<open>exists_by_user_id\<close> and \<open>delete_by_user_id\<close>
  select on the user id alone; \<open>insert\<close> adds one row with the values of the schema.
\<close>

definition RefreshTokenDAL_methods :: "string list" where
  "RefreshTokenDAL_methods = [''exists_by_user_id'', ''delete_by_user_id'', ''insert'']"

text \<open>
  Looking a method up on an instance of the class: a name the class does not define
  raises \<open>AttributeError\<close>.
\<close>

definition RefreshTokenDAL_getattr :: "string \<Rightarrow> exn + string" where
  "RefreshTokenDAL_getattr name =
     (if name \<in> set RefreshTokenDAL_methods then Inr name else Inl AttributeError)"

definition token_dal_exists_by_user_id :: "int \<Rightarrow> session \<Rightarrow> exn + (bool \<times> session)" where
  "token_dal_exists_by_user_id user_id s =
     (if fails s OpExistsByUserId then Inl StorageError
      else Inr (filter (\<lambda>t. tk_user_id t = user_id) (tokens s) \<noteq> [], executed OpExistsByUserId s))"

definition token_dal_delete_by_user_id :: "int \<Rightarrow> session \<Rightarrow> exn + session" where
  "token_dal_delete_by_user_id user_id s =
     (if fails s OpDeleteByUserId then Inl StorageError
      else Inr (executed OpDeleteByUserId
                  (s\<lparr>tokens := filter (\<lambda>t. tk_user_id t \<noteq> user_id) (tokens s)\<rparr>)))"

definition token_of_schema :: "InsertTokenSchema \<Rightarrow> Token" where
  "token_of_schema r =
     \<lparr>tk_user_id = it_user_id r, tk_access_token = it_access_token r,
      tk_refresh_token = it_refresh_token r, tk_refresh_token_key = it_refresh_token_key r,
      tk_issued_at = it_issued_at r, tk_expires_at = it_expires_at r\<rparr>"

definition token_dal_insert :: "InsertTokenSchema \<Rightarrow> session \<Rightarrow> exn + session" where
  "token_dal_insert refresh_token s =
     (if fails s OpInsert then Inl StorageError
      else Inr (executed OpInsert (s\<lparr>tokens := tokens s @ [token_of_schema refresh_token]\<rparr>)))"

text \<open>
  The class as the handlers see it: one slot for each method name that the handlers or
  the class use, \<open>None\<close> where the class has no method of that name. The handlers call
  \<open>exists\<close>, \<open>get\<close>, \<open>update\<close> and \<open>delete\<close> with the user id and the access
  token; the class defines none of the four, so each of these calls raises
  \<open>AttributeError\<close> when the attribute is looked up, before the arguments are
  evaluated.
\<close>

record dal_class =
  cls_exists_by_user_id :: "(int \<Rightarrow> session \<Rightarrow> exn + (bool \<times> session)) option"
  cls_delete_by_user_id :: "(int \<Rightarrow> session \<Rightarrow> exn + session) option"
  cls_insert :: "(InsertTokenSchema \<Rightarrow> session \<Rightarrow> exn + session) option"
  cls_exists :: "(int \<Rightarrow> string \<Rightarrow> session \<Rightarrow> exn + (bool \<times> session)) option"
  cls_get :: "(int \<Rightarrow> string \<Rightarrow> session \<Rightarrow> exn + (Token option \<times> session)) option"
  cls_update :: "(UpdateTokenSchema \<Rightarrow> session \<Rightarrow> exn + session) option"
  cls_delete :: "(int \<Rightarrow> string \<Rightarrow> session \<Rightarrow> exn + session) option"

definition RefreshTokenDAL :: dal_class where
  "RefreshTokenDAL =
     \<lparr>cls_exists_by_user_id = Some token_dal_exists_by_user_id,
      cls_delete_by_user_id = Some token_dal_delete_by_user_id,
      cls_insert = Some token_dal_insert,
      cls_exists = None,
      cls_get = None,
      cls_update = None,
      cls_delete = None\<rparr>"

text \<open>The names of the methods a class defines, in the order of the source file.\<close>

definition defined_methods :: "dal_class \<Rightarrow> string list" where
  "defined_methods c =
     (if cls_exists_by_user_id c = None then [] else [''exists_by_user_id''])
     @ (if cls_delete_by_user_id c = None then [] else [''delete_by_user_id''])
     @ (if cls_insert c = None then [] else [''insert''])
     @ (if cls_exists c = None then [] else [''exists''])
     @ (if cls_get c = None then [] else [''get''])
     @ (if cls_update c = None then [] else [''update''])
     @ (if cls_delete c = None then [] else [''delete''])"

subsection \<open>The store of the spec, for comparison\<close>

text \<open>Modelled from the spec: the natural key of a record, user id and access token (section 3).\<close>

definition natural_key :: "int \<Rightarrow> string \<Rightarrow> Token \<Rightarrow> bool" where
  "natural_key user_id access_token t = (tk_user_id t = user_id \<and> tk_access_token t = access_token)"

text \<open>
  Modelled from the spec: the \<open>delete\<close> of section 4.5, removal of the record under
  the natural key. The class in the sources has no such method; this definition is the
  spec's side of the comparison with \<open>delete_by_user_id\<close>, and no handler reaches it.
\<close>

definition token_dal_delete :: "int \<Rightarrow> string \<Rightarrow> session \<Rightarrow> exn + session" where
  "token_dal_delete user_id access_token s =
     (if fails s OpDelete then Inl StorageError
      else Inr (executed OpDelete
                  (s\<lparr>tokens := filter (\<lambda>t. \<not> natural_key user_id access_token t) (tokens s)\<rparr>)))"

subsection \<open>UserDAL\<close>

text \<open>
  Modelled from the spec: \<open>UserDAL.get_user_from_email\<close> of \<open>db.crud.crud_user\<close>,
  which is not part of the sources. Section 6: the lookup of a principal by its
  blind-indexed identifier.
\<close>

definition user_dal_get_user_from_email :: "string \<Rightarrow> session \<Rightarrow> exn + (User option \<times> session)" where
  "user_dal_get_user_from_email email_key s =
     (if fails s OpGetUser then Inl StorageError
      else Inr (d_users (db s) email_key, executed OpGetUser s))"

text \<open>
  Modelled from the spec: \<open>UserDAL.update_last_login\<close> of \<open>db.crud.crud_user\<close>, which
  is not part of the sources. Section 4.6: the update of the last-login metadata inside
  the transaction of the login.
\<close>

definition user_dal_update_last_login :: "int \<Rightarrow> string \<Rightarrow> session \<Rightarrow> exn + session" where
  "user_dal_update_last_login user_id login_ip s =
     (if fails s OpUpdateLastLogin then Inl StorageError
      else Inr (executed OpUpdateLastLogin (s\<lparr>last_login := (last_login s)(user_id \<mapsto> login_ip)\<rparr>)))"

section \<open>The session lifecycle (app/api/v1/auth.py)\<close>

subsection \<open>Collaborators, requests and responses\<close>

record CreateTokenSchema =
  ct_access_token :: string
  ct_refresh_token :: string
  ct_iat :: string
  ct_access_token_expires_in :: string
  ct_refresh_token_expires_in :: string

text \<open>
  Modelled from the spec: the cipher \<open>AESCipher\<close>, the digest \<open>Hasher.hmac_sha256\<close>,
  \<open>authenticate\<close> and the issuer \<open>create_new_jwt_token\<close> are not part of the
  sources. Sections 4.1 to 4.3 and 6 give their contracts; they are parameters of the
  handlers, fixed for one request, together with the offset of the server's local time.
  Decryption fails on an invalid ciphertext, which is \<open>None\<close> here.
\<close>

record deps =
  hmac_sha256 :: "string \<Rightarrow> string"
  aes_encrypt :: "string \<Rightarrow> string"
  aes_decrypt :: "string \<Rightarrow> string option"
  authenticate :: "User option \<Rightarrow> string \<Rightarrow> bool"
  create_new_jwt_token :: "string \<Rightarrow> CreateTokenSchema"
  utc_offset :: int

record Request =
  client_host :: string

record LoginRequestSchema =
  lr_email :: string
  lr_password :: string

datatype content =
    Message string
  | TokenContent CreateTokenSchema
  | TokenSchema string string

record cookie =
  ck_key :: string
  ck_value :: string
  ck_httponly :: bool
  ck_max_age :: "int option"

record response =
  status_code :: nat
  content :: content
  cookies :: "cookie list"

datatype outcome = Returned response | Raised exn

definition JSONResponse :: "string \<Rightarrow> nat \<Rightarrow> response" where
  "JSONResponse message code = \<lparr>status_code = code, content = Message message, cookies = []\<rparr>"

definition set_cookie :: "string \<Rightarrow> string \<Rightarrow> int option \<Rightarrow> response \<Rightarrow> response" where
  "set_cookie key v max_age r =
     r\<lparr>cookies := cookies r @ [\<lparr>ck_key = key, ck_value = v, ck_httponly = True, ck_max_age = max_age\<rparr>]\<rparr>"

subsection \<open>Login\<close>

text \<open>
  A handler takes the session of the request and returns what the client gets together
  with the session as it leaves it. An exception raised outside the \<open>try\<close> block leaves
  the handler; one raised inside is answered after a rollback, and \<open>finally\<close> closes
  the session. A method call on the store first looks the method up on the class, then
  evaluates the arguments, then runs the method.
\<close>

definition login_failed :: "session \<Rightarrow> outcome \<times> session" where
  "login_failed s =
     (Returned (JSONResponse ''Failed to select/insert data'' 500), session_close (session_rollback s))"

definition api_login :: "deps \<Rightarrow> Request \<Rightarrow> LoginRequestSchema \<Rightarrow> session \<Rightarrow> outcome \<times> session" where
  "api_login dp request login_info session =
     (let email_key = hmac_sha256 dp (lr_email login_info)
      in case user_dal_get_user_from_email email_key session of
           Inl e \<Rightarrow> (Raised e, session)
         | Inr (user, s0) \<Rightarrow>
             if \<not> authenticate dp user (lr_password login_info)
             then (Returned (JSONResponse ''Incorrect username or password.'' 401), s0)
             else
               (case user of
                  None \<Rightarrow> (Raised AttributeError, s0)
                | Some u \<Rightarrow>
                    (let token = create_new_jwt_token dp (py_str (u_id u))
                     in case py_int (ct_iat token) of
                          None \<Rightarrow> (Raised (invalid_literal (ct_iat token)), s0)
                        | Some iat \<Rightarrow>
                       (case fromtimestamp (utc_offset dp) iat of
                          Inl e \<Rightarrow> (Raised e, s0)
                        | Inr issued_at \<Rightarrow>
                       (case py_int (ct_refresh_token_expires_in token) of
                          None \<Rightarrow> (Raised (invalid_literal (ct_refresh_token_expires_in token)), s0)
                        | Some expires \<Rightarrow>
                       (case fromtimestamp (utc_offset dp) expires of
                          Inl e \<Rightarrow> (Raised e, s0)
                        | Inr expires_at \<Rightarrow>
                            (let insert_refresh_token =
                                   \<lparr>it_user_id = u_id u,
                                    it_access_token = ct_access_token token,
                                    it_refresh_token = aes_encrypt dp (ct_refresh_token token),
                                    it_refresh_token_key = hmac_sha256 dp (ct_refresh_token token),
                                    it_issued_at = issued_at,
                                    it_expires_at = expires_at\<rparr>
                             in case cls_insert RefreshTokenDAL of
                                  None \<Rightarrow> login_failed s0
                                | Some insert_method \<Rightarrow>
                               (case insert_method insert_refresh_token s0 of
                                  Inl e \<Rightarrow> login_failed s0
                                | Inr s1 \<Rightarrow>
                               (case user_dal_update_last_login (u_id u) (client_host request) s1 of
                                  Inl e \<Rightarrow> login_failed s1
                                | Inr s2 \<Rightarrow>
                               (case session_commit s2 of
                                  Inl e \<Rightarrow> login_failed s2
                                | Inr s3 \<Rightarrow>
                                    (Returned \<lparr>status_code = 200, content = TokenContent token,
                                               cookies = []\<rparr>,
                                     session_close s3)))))))))))"

definition web_login :: "deps \<Rightarrow> Request \<Rightarrow> LoginRequestSchema \<Rightarrow> session \<Rightarrow> outcome \<times> session" where
  "web_login dp request login_info session =
     (let email_key = hmac_sha256 dp (lr_email login_info)
      in case user_dal_get_user_from_email email_key session of
           Inl e \<Rightarrow> (Raised e, session)
         | Inr (user, s0) \<Rightarrow>
             if \<not> authenticate dp user (lr_password login_info)
             then (Returned (JSONResponse ''Incorrect username or password.'' 401), s0)
             else
               (case user of
                  None \<Rightarrow> (Raised AttributeError, s0)
                | Some u \<Rightarrow>
                    (let token = create_new_jwt_token dp (py_str (u_id u))
                     in case py_int (ct_iat token) of
                          None \<Rightarrow> (Raised (invalid_literal (ct_iat token)), s0)
                        | Some iat \<Rightarrow>
                       (case fromtimestamp (utc_offset dp) iat of
                          Inl e \<Rightarrow> (Raised e, s0)
                        | Inr issued_at \<Rightarrow>
                       (case py_int (ct_refresh_token_expires_in token) of
                          None \<Rightarrow> (Raised (invalid_literal (ct_refresh_token_expires_in token)), s0)
                        | Some expires \<Rightarrow>
                       (case fromtimestamp (utc_offset dp) expires of
                          Inl e \<Rightarrow> (Raised e, s0)
                        | Inr expires_at \<Rightarrow>
                            (let insert_refresh_token =
                                   \<lparr>it_user_id = u_id u,
                                    it_access_token = ct_access_token token,
                                    it_refresh_token = aes_encrypt dp (ct_refresh_token token),
                                    it_refresh_token_key = hmac_sha256 dp (ct_refresh_token token),
                                    it_issued_at = issued_at,
                                    it_expires_at = expires_at\<rparr>
                             in case cls_insert RefreshTokenDAL of
                                  None \<Rightarrow> login_failed s0
                                | Some insert_method \<Rightarrow>
                               (case insert_method insert_refresh_token s0 of
                                  Inl e \<Rightarrow> login_failed s0
                                | Inr s1 \<Rightarrow>
                               (case user_dal_update_last_login (u_id u) (client_host request) s1 of
                                  Inl e \<Rightarrow> login_failed s1
                                | Inr s2 \<Rightarrow>
                               (case session_commit s2 of
                                  Inl e \<Rightarrow> login_failed s2
                                | Inr s3 \<Rightarrow>
                                    (Returned
                                       (set_cookie ''refresh_token'' (ct_refresh_token token) None
                                         (set_cookie ''access_token'' (ct_access_token token) None
                                           (JSONResponse ''login success'' 200))),
                                     session_close s3)))))))))))"

subsection \<open>Logout\<close>

text \<open>
  The two \<open>except\<close> clauses of a logout handler: a \<open>ValueError\<close> is answered with its
  own message, any other exception with a fixed one; both roll back and answer 404.
\<close>

definition api_logout_except :: "exn \<Rightarrow> session \<Rightarrow> outcome \<times> session" where
  "api_logout_except e s =
     (case e of
        ValueError message \<Rightarrow> (Returned (JSONResponse message 404), session_close (session_rollback s))
      | _ \<Rightarrow> (Returned (JSONResponse ''Invalid Refresh Token'' 404), session_close (session_rollback s)))"

definition api_logout :: "TokenUser \<Rightarrow> session \<Rightarrow> outcome \<times> session" where
  "api_logout token session =
     (case cls_exists RefreshTokenDAL of
        None \<Rightarrow> api_logout_except AttributeError session
      | Some exists_method \<Rightarrow>
     (case py_int (tu_sub token) of
        None \<Rightarrow> api_logout_except (invalid_literal (tu_sub token)) session
      | Some user_id \<Rightarrow>
     (case exists_method user_id (tu_access_token token) session of
        Inl e \<Rightarrow> api_logout_except e session
      | Inr (found, s0) \<Rightarrow>
          if found then
            (case cls_delete RefreshTokenDAL of
               None \<Rightarrow> api_logout_except AttributeError s0
             | Some delete_method \<Rightarrow>
            (case delete_method user_id (tu_access_token token) s0 of
               Inl e \<Rightarrow> api_logout_except e s0
             | Inr s1 \<Rightarrow>
            (case session_commit s1 of
               Inl e \<Rightarrow> api_logout_except e s1
             | Inr s2 \<Rightarrow> (Returned (JSONResponse ''logout success'' 200), session_close s2))))
          else api_logout_except (PlainException ''user token not found'') s0)))"

definition web_logout_except :: "exn \<Rightarrow> session \<Rightarrow> outcome \<times> session" where
  "web_logout_except e s =
     (case e of
        ValueError message \<Rightarrow> (Returned (JSONResponse message 404), session_close (session_rollback s))
      | _ \<Rightarrow> (Returned (JSONResponse ''Token Expired fail'' 404), session_close (session_rollback s)))"

definition web_logout :: "TokenUser \<Rightarrow> session \<Rightarrow> outcome \<times> session" where
  "web_logout token session =
     (case cls_exists RefreshTokenDAL of
        None \<Rightarrow> web_logout_except AttributeError session
      | Some exists_method \<Rightarrow>
     (case py_int (tu_sub token) of
        None \<Rightarrow> web_logout_except (invalid_literal (tu_sub token)) session
      | Some user_id \<Rightarrow>
     (case exists_method user_id (tu_access_token token) session of
        Inl e \<Rightarrow> web_logout_except e session
      | Inr (found, s0) \<Rightarrow>
          if found then
            (case cls_delete RefreshTokenDAL of
               None \<Rightarrow> web_logout_except AttributeError s0
             | Some delete_method \<Rightarrow>
            (case delete_method user_id (tu_access_token token) s0 of
               Inl e \<Rightarrow> web_logout_except e s0
             | Inr s1 \<Rightarrow>
            (case session_commit s1 of
               Inl e \<Rightarrow> web_logout_except e s1
             | Inr s2 \<Rightarrow>
                 (Returned
                    (set_cookie ''refresh_token'' [] (Some 0)
                      (set_cookie ''access_token'' [] (Some 0)
                        (JSONResponse ''logout success'' 200))),
                  session_close s2))))
          else web_logout_except (ValueError ''user token not found'') s0)))"

subsection \<open>Refresh\<close>

definition refresh_failed :: "session \<Rightarrow> outcome \<times> session" where
  "refresh_failed s =
     (Returned (JSONResponse ''Token Update failed'' 404), session_close (session_rollback s))"

definition api_token_refresh :: "deps \<Rightarrow> TokenUser \<Rightarrow> session \<Rightarrow> outcome \<times> session" where
  "api_token_refresh dp token session =
     (case cls_get RefreshTokenDAL of
        None \<Rightarrow> (Raised AttributeError, session)
      | Some get_method \<Rightarrow>
     (case py_int (tu_sub token) of
        None \<Rightarrow> (Raised (invalid_literal (tu_sub token)), session)
      | Some user_id \<Rightarrow>
     (case get_method user_id (tu_access_token token) session of
        Inl e \<Rightarrow> (Raised e, session)
      | Inr (token_info, s0) \<Rightarrow>
     (case token_info of
        None \<Rightarrow> (Raised CredentialsInvalid, s0)
      | Some info \<Rightarrow>
     (case aes_decrypt dp (tk_refresh_token info) of
        None \<Rightarrow> (Raised DecryptionError, s0)
      | Some plain \<Rightarrow>
          if tu_refresh_token token \<noteq> Some plain then (Raised CredentialsInvalid, s0)
          else
            (let new_token = create_new_jwt_token dp (tu_sub token)
             in case py_int (ct_refresh_token_expires_in new_token) of
                  None \<Rightarrow> (Raised (invalid_literal (ct_refresh_token_expires_in new_token)), s0)
                | Some expires \<Rightarrow>
               (case fromtimestamp (utc_offset dp) expires of
                  Inl e \<Rightarrow> (Raised e, s0)
                | Inr expires_at \<Rightarrow>
                    (let update_token =
                           \<lparr>ut_user_id = user_id,
                            ut_old_access_token = tu_access_token token,
                            ut_new_access_token = ct_access_token new_token,
                            ut_refresh_token_key = hmac_sha256 dp (ct_refresh_token new_token),
                            ut_refresh_token = aes_encrypt dp (ct_refresh_token new_token),
                            ut_expires_at = expires_at\<rparr>
                     in case cls_update RefreshTokenDAL of
                          None \<Rightarrow> refresh_failed s0
                        | Some update_method \<Rightarrow>
                       (case update_method update_token s0 of
                          Inl e \<Rightarrow> refresh_failed s0
                        | Inr s1 \<Rightarrow>
                       (case session_commit s1 of
                          Inl e \<Rightarrow> refresh_failed s1
                        | Inr s2 \<Rightarrow>
                            (Returned
                               \<lparr>status_code = 200,
                                content = TokenSchema (ct_access_token new_token)
                                            (ct_refresh_token new_token),
                                cookies = []\<rparr>,
                             session_close s2)))))))))))"

definition web_token_refresh :: "deps \<Rightarrow> TokenUser \<Rightarrow> session \<Rightarrow> outcome \<times> session" where
  "web_token_refresh dp token session =
     (case cls_get RefreshTokenDAL of
        None \<Rightarrow> (Raised AttributeError, session)
      | Some get_method \<Rightarrow>
     (case py_int (tu_sub token) of
        None \<Rightarrow> (Raised (invalid_literal (tu_sub token)), session)
      | Some user_id \<Rightarrow>
     (case get_method user_id (tu_access_token token) session of
        Inl e \<Rightarrow> (Raised e, session)
      | Inr (token_info, s0) \<Rightarrow>
     (case token_info of
        None \<Rightarrow> (Raised CredentialsInvalid, s0)
      | Some info \<Rightarrow>
     (case aes_decrypt dp (tk_refresh_token info) of
        None \<Rightarrow> (Raised DecryptionError, s0)
      | Some plain \<Rightarrow>
          if tu_refresh_token token \<noteq> Some plain then (Raised CredentialsInvalid, s0)
          else
            (let new_token = create_new_jwt_token dp (tu_sub token)
             in case py_int (ct_refresh_token_expires_in new_token) of
                  None \<Rightarrow> (Raised (invalid_literal (ct_refresh_token_expires_in new_token)), s0)
                | Some expires \<Rightarrow>
               (case fromtimestamp (utc_offset dp) expires of
                  Inl e \<Rightarrow> (Raised e, s0)
                | Inr expires_at \<Rightarrow>
                    (let update_token =
                           \<lparr>ut_user_id = user_id,
                            ut_old_access_token = tu_access_token token,
                            ut_new_access_token = ct_access_token new_token,
                            ut_refresh_token_key = hmac_sha256 dp (ct_refresh_token new_token),
                            ut_refresh_token = aes_encrypt dp (ct_refresh_token new_token),
                            ut_expires_at = expires_at\<rparr>
                     in case cls_update RefreshTokenDAL of
                          None \<Rightarrow> refresh_failed s0
                        | Some update_method \<Rightarrow>
                       (case update_method update_token s0 of
                          Inl e \<Rightarrow> refresh_failed s0
                        | Inr s1 \<Rightarrow>
                       (case session_commit s1 of
                          Inl e \<Rightarrow> refresh_failed s1
                        | Inr s2 \<Rightarrow>
                            (Returned
                               (set_cookie ''refresh_token'' (ct_refresh_token new_token) None
                                 (set_cookie ''access_token'' (ct_access_token new_token) None
                                   (JSONResponse ''refresh success'' 200))),
                             session_close s2)))))))))))"

text \<open>
  A route resolves its verifier first (\<open>Depends\<close>); when the verifier raises, the
  handler is not entered.
\<close>

definition api_token_refresh_route :: "settings \<Rightarrow> deps \<Rightarrow> TokenRefreshRequestSchema \<Rightarrow> session \<Rightarrow> outcome \<times> session" where
  "api_token_refresh_route st dp body session =
     (case AuthorizeTokenRefresh st body of
        Inl e \<Rightarrow> (Raised e, session)
      | Inr token \<Rightarrow> api_token_refresh dp token session)"

definition web_token_refresh_route :: "settings \<Rightarrow> deps \<Rightarrow> string option \<Rightarrow> string option \<Rightarrow> session \<Rightarrow> outcome \<times> session" where
  "web_token_refresh_route st dp access_token refresh_token session =
     (case AuthorizeRefreshCookieUser st access_token refresh_token of
        Inl e \<Rightarrow> (Raised e, session)
      | Inr token \<Rightarrow> web_token_refresh dp token session)"

text \<open>What a client can classify an outcome by: the exception raised or the status returned.\<close>

definition classify :: "outcome \<Rightarrow> exn + nat" where
  "classify out = (case out of Raised e \<Rightarrow> Inl e | Returned r \<Rightarrow> Inr (status_code r))"

section \<open>Concrete requests and stores\<close>

text \<open>
  A small instance of every parameter, on which the properties below are run: a signing
  oracle that knows four tokens of user 42 (one expired at the time of the request, one
  fresh, one without subject, one whose payload has a claim named \<open>access_token\<close>), a
  cipher that tags its input, and a store with one record.
\<close>

definition claims_expired :: claims where
  "claims_expired = [''sub'' \<mapsto> JStr ''42'', ''exp'' \<mapsto> JInt 100]"

definition claims_fresh :: claims where
  "claims_fresh = [''sub'' \<mapsto> JStr ''42'', ''exp'' \<mapsto> JInt 1600]"

definition claims_no_sub :: claims where
  "claims_no_sub = [''exp'' \<mapsto> JInt 1600]"

definition claims_collide :: claims where
  "claims_collide = [''sub'' \<mapsto> JStr ''42'', ''exp'' \<mapsto> JInt 1600, ''access_token'' \<mapsto> JStr ''x'']"

definition settings_ex :: settings where
  "settings_ex =
     \<lparr>jwt_access_secret_key = ''secret'', jwt_algorithm = ''HS256'',
      jws_verify = (\<lambda>token key algorithms.
         if key = ''secret'' \<and> algorithms = [''HS256''] then
           (if token = ''at1.42'' then Some claims_expired
            else if token = ''at2.42'' then Some claims_fresh
            else if token = ''at.nosub'' then Some claims_no_sub
            else if token = ''at.collide'' then Some claims_collide
            else None)
         else None),
      utcnow = 200\<rparr>"

definition deps_ex :: deps where
  "deps_ex =
     \<lparr>hmac_sha256 = (\<lambda>m. ''h:'' @ m),
      aes_encrypt = (\<lambda>p. ''enc:'' @ p),
      aes_decrypt = (\<lambda>c. if take 4 c = ''enc:'' then Some (drop 4 c) else None),
      authenticate = (\<lambda>user password.
         case user of None \<Rightarrow> False | Some u \<Rightarrow> u_credential u = password),
      create_new_jwt_token = (\<lambda>sub.
         \<lparr>ct_access_token = ''at2.'' @ sub, ct_refresh_token = ''rt2.'' @ sub, ct_iat = ''1000'',
          ct_access_token_expires_in = ''1600'', ct_refresh_token_expires_in = ''605800''\<rparr>),
      utc_offset = 0\<rparr>"

definition token_ex :: Token where
  "token_ex =
     \<lparr>tk_user_id = 42, tk_access_token = ''at1.42'', tk_refresh_token = ''enc:rt1.42'',
      tk_refresh_token_key = ''h:rt1.42'', tk_issued_at = 0, tk_expires_at = 604800\<rparr>"

definition token_other :: Token where
  "token_other =
     \<lparr>tk_user_id = 42, tk_access_token = ''at3.42'', tk_refresh_token = ''enc:rt3.42'',
      tk_refresh_token_key = ''h:rt3.42'', tk_issued_at = 50, tk_expires_at = 604850\<rparr>"

definition database_ex :: database where
  "database_ex =
     \<lparr>d_tokens = [token_ex], d_last_login = Map.empty,
      d_users = [''h:ann@example.org'' \<mapsto> \<lparr>u_id = 42, u_credential = ''pw''\<rparr>]\<rparr>"

definition database_two :: database where
  "database_two = database_ex\<lparr>d_tokens := [token_ex, token_other]\<rparr>"

definition no_fault :: "db_op \<Rightarrow> bool" where
  "no_fault op = False"



definition user_ex :: TokenUser where
  "user_ex = \<lparr>tu_sub = ''42'', tu_access_token = ''at1.42'', tu_refresh_token = Some ''rt1.42''\<rparr>"

definition user_wrong_refresh :: TokenUser where
  "user_wrong_refresh =
     \<lparr>tu_sub = ''42'', tu_access_token = ''at1.42'', tu_refresh_token = Some ''forged''\<rparr>"

definition user_unknown_access :: TokenUser where
  "user_unknown_access =
     \<lparr>tu_sub = ''42'', tu_access_token = ''at0.42'', tu_refresh_token = Some ''rt1.42''\<rparr>"

definition request_ex :: Request where
  "request_ex = \<lparr>client_host = ''10.0.0.1''\<rparr>"

definition login_ex :: LoginRequestSchema where
  "login_ex = \<lparr>lr_email = ''ann@example.org'', lr_password = ''pw''\<rparr>"

section \<open>Properties of the verifiers\<close>

lemma py_int_1000: "py_int ''1000'' = Some 1000"
  by (simp add: py_int_def strip_def is_space_def digit_val_def)

lemma py_int_605800: "py_int ''605800'' = Some 605800"
  by (simp add: py_int_def strip_def is_space_def digit_val_def)

lemma py_str_42: "py_str 42 = ''42''"
  by (simp add: py_str_def)

lemma jwt_decode_lenient_not_expired:
  "jwt_decode st token key algorithms False \<noteq> Inl ExpiredSignatureError"
  by (auto simp: jwt_decode_def validate_sub_def split: option.splits json.splits)

text \<open>
  Claim C2, as amended. When both values are presented (neither absent nor empty), the
  signature of the access token verifies under the configured key and algorithm and the
  decoded claims satisfy the TokenUser schema, the two expiry-lenient verifiers return
  that TokenUser, whose subject is the token's \<open>sub\<close> claim, whatever the \<open>exp\<close>
  claim and the clock are; when the decoded claims fail the schema, they raise
  CredentialsInvalid.
\<close>

theorem lenient_verifier_accepts_expired:
  "(\<not> py_not a \<and> \<not> py_not r
      \<and> jws_verify st (the a) (jwt_access_secret_key st) [jwt_algorithm st] = Some c
      \<and> TokenUser_new c (the a) r = Inr u
    \<longrightarrow> AuthorizeRefreshCookieUser st a r = Inr u
        \<and> AuthorizeTokenRefresh st \<lparr>rq_access_token = a, rq_refresh_token = r\<rparr> = Inr u
        \<and> sub_claim c = Some (JStr (tu_sub u)))
   \<and> (\<not> py_not a \<and> \<not> py_not r
      \<and> jwt_decode st (the a) (jwt_access_secret_key st) [jwt_algorithm st] False = Inr p
      \<and> TokenUser_new p (the a) r = Inl ValidationError
    \<longrightarrow> AuthorizeRefreshCookieUser st a r = Inl CredentialsInvalid
        \<and> AuthorizeTokenRefresh st \<lparr>rq_access_token = a, rq_refresh_token = r\<rparr> = Inl CredentialsInvalid)"
  by (auto simp: AuthorizeRefreshCookieUser_def AuthorizeTokenRefresh_def jwt_decode_def
        validate_sub_def TokenUser_new_def split: option.splits json.splits if_splits)

text \<open>
  The theorem at the expired token of user 42 (its \<open>exp\<close> is 100, the clock shows 200),
  and at the token without subject.
\<close>

theorem lenient_verifier_accepts_expired_witness:
  "validate_exp (utcnow settings_ex) claims_expired = Some ExpiredSignatureError
   \<and> AuthorizeRefreshCookieUser settings_ex (Some ''at1.42'') (Some ''rt1.42'')
       = Inr \<lparr>tu_sub = ''42'', tu_access_token = ''at1.42'', tu_refresh_token = Some ''rt1.42''\<rparr>
   \<and> AuthorizeTokenRefresh settings_ex \<lparr>rq_access_token = Some ''at1.42'', rq_refresh_token = Some ''rt1.42''\<rparr>
       = Inr \<lparr>tu_sub = ''42'', tu_access_token = ''at1.42'', tu_refresh_token = Some ''rt1.42''\<rparr>
   \<and> AuthorizeRefreshCookieUser settings_ex (Some ''at.nosub'') (Some ''rt1.42'') = Inl CredentialsInvalid"
  using lenient_verifier_accepts_expired [of "Some ''at1.42''" "Some ''rt1.42''" settings_ex claims_expired
          "\<lparr>tu_sub = ''42'', tu_access_token = ''at1.42'', tu_refresh_token = Some ''rt1.42''\<rparr>" claims_no_sub]
        lenient_verifier_accepts_expired [of "Some ''at.nosub''" "Some ''rt1.42''" settings_ex claims_no_sub
          "\<lparr>tu_sub = ''42'', tu_access_token = ''at1.42'', tu_refresh_token = Some ''rt1.42''\<rparr>" claims_no_sub]
  by (simp add: settings_ex_def py_not_def jwt_decode_def validate_exp_def validate_sub_def
        int_json_def claims_expired_def claims_no_sub_def TokenUser_new_def sub_claim_def exp_claim_def)

text \<open>
  Claim C2 as stated fails: the access token of user 42 verifies and its claims satisfy
  the schema, yet without a refresh token (an absent cookie, an empty field of the body)
  both lenient verifiers raise CredentialsInvalid.
\<close>

theorem lenient_verifier_counterexample:
  "jws_verify settings_ex ''at1.42'' (jwt_access_secret_key settings_ex) [jwt_algorithm settings_ex]
     = Some claims_expired
   \<and> TokenUser_new claims_expired ''at1.42'' None
       = Inr \<lparr>tu_sub = ''42'', tu_access_token = ''at1.42'', tu_refresh_token = None\<rparr>
   \<and> AuthorizeRefreshCookieUser settings_ex (Some ''at1.42'') None = Inl CredentialsInvalid
   \<and> AuthorizeTokenRefresh settings_ex \<lparr>rq_access_token = Some ''at1.42'', rq_refresh_token = Some []\<rparr>
       = Inl CredentialsInvalid"
  by (simp add: AuthorizeRefreshCookieUser_def AuthorizeTokenRefresh_def settings_ex_def py_not_def
        claims_expired_def TokenUser_new_def sub_claim_def)

text \<open>
  Claim C3. The strict verifiers (cookie pair, bearer header): a missing cookie value, or
  a header whose scheme is not \<open>bearer\<close> or whose token is empty, gives
  CredentialsInvalid; with the credential present, a token whose signature does not
  verify, or whose decoded claims fail the schema, gives CredentialsInvalid, and a token
  whose signature verifies and whose expiry check fails gives TokenExpired, which is a
  different error.
\<close>

theorem strict_verifier_transitions:
  "(py_not a \<or> py_not r \<longrightarrow> AuthorizeCookieUser st a r = Inl CredentialsInvalid)
   \<and> (lower (fst (get_authorization_scheme_param h)) \<noteq> ''bearer''
        \<or> snd (get_authorization_scheme_param h) = []
       \<longrightarrow> AuthorizeTokenUser st h = Inl CredentialsInvalid)
   \<and> (\<not> py_not a \<and> \<not> py_not r \<longrightarrow>
        (jws_verify st (the a) (jwt_access_secret_key st) [jwt_algorithm st] = None
           \<longrightarrow> AuthorizeCookieUser st a r = Inl CredentialsInvalid)
      \<and> (\<forall>p. jwt_decode st (the a) (jwt_access_secret_key st) [jwt_algorithm st] True = Inr p
              \<and> TokenUser_new p (the a) r = Inl ValidationError
           \<longrightarrow> AuthorizeCookieUser st a r = Inl CredentialsInvalid)
      \<and> (\<forall>c. jws_verify st (the a) (jwt_access_secret_key st) [jwt_algorithm st] = Some c
              \<and> validate_exp (utcnow st) c = Some ExpiredSignatureError
           \<longrightarrow> AuthorizeCookieUser st a r = Inl TokenExpired))
   \<and> (lower (fst (get_authorization_scheme_param h)) = ''bearer''
        \<and> snd (get_authorization_scheme_param h) \<noteq> [] \<longrightarrow>
        (jws_verify st (snd (get_authorization_scheme_param h)) (jwt_access_secret_key st)
             [jwt_algorithm st] = None
           \<longrightarrow> AuthorizeTokenUser st h = Inl CredentialsInvalid)
      \<and> (\<forall>p. jwt_decode st (snd (get_authorization_scheme_param h)) (jwt_access_secret_key st)
                 [jwt_algorithm st] True = Inr p
              \<and> TokenUser_new p (snd (get_authorization_scheme_param h)) None = Inl ValidationError
           \<longrightarrow> AuthorizeTokenUser st h = Inl CredentialsInvalid)
      \<and> (\<forall>c. jws_verify st (snd (get_authorization_scheme_param h)) (jwt_access_secret_key st)
                 [jwt_algorithm st] = Some c
              \<and> validate_exp (utcnow st) c = Some ExpiredSignatureError
           \<longrightarrow> AuthorizeTokenUser st h = Inl TokenExpired))
   \<and> TokenExpired \<noteq> CredentialsInvalid"
  by (auto simp: AuthorizeCookieUser_def AuthorizeTokenUser_def jwt_decode_def Let_def
           split: prod.splits)

text \<open>
  The theorem at a missing cookie and a \<open>Basic\<close> header, at a forged token, at the token
  without subject and at the expired token.
\<close>

theorem strict_verifier_transitions_witness:
  "AuthorizeCookieUser settings_ex (Some ''at1.42'') None = Inl CredentialsInvalid
   \<and> AuthorizeTokenUser settings_ex (Some ''Basic at1.42'') = Inl CredentialsInvalid
   \<and> AuthorizeCookieUser settings_ex (Some ''forged'') (Some ''rt1.42'') = Inl CredentialsInvalid
   \<and> AuthorizeTokenUser settings_ex (Some ''Bearer forged'') = Inl CredentialsInvalid
   \<and> AuthorizeCookieUser settings_ex (Some ''at.nosub'') (Some ''rt1.42'') = Inl CredentialsInvalid
   \<and> AuthorizeTokenUser settings_ex (Some ''Bearer at.nosub'') = Inl CredentialsInvalid
   \<and> AuthorizeCookieUser settings_ex (Some ''at1.42'') (Some ''rt1.42'') = Inl TokenExpired
   \<and> AuthorizeTokenUser settings_ex (Some ''Bearer at1.42'') = Inl TokenExpired"
  using strict_verifier_transitions [of "Some ''at1.42''" None settings_ex "Some ''Basic at1.42''"]
        strict_verifier_transitions [of "Some ''forged''" "Some ''rt1.42''" settings_ex "Some ''Bearer forged''"]
        strict_verifier_transitions [of "Some ''at.nosub''" "Some ''rt1.42''" settings_ex "Some ''Bearer at.nosub''"]
        strict_verifier_transitions [of "Some ''at1.42''" "Some ''rt1.42''" settings_ex "Some ''Bearer at1.42''"]
  by (simp add: settings_ex_def py_not_def jwt_decode_def validate_exp_def validate_sub_def
        int_json_def claims_expired_def claims_no_sub_def TokenUser_new_def sub_claim_def exp_claim_def
        get_authorization_scheme_param_def lower_def lower_char_def)

lemma TokenUser_new_errors:
  "TokenUser_new payload access_token refresh_token = Inl e \<Longrightarrow> e = TypeError \<or> e = ValidationError"
  by (auto simp: TokenUser_new_def split: if_splits option.splits json.splits)

text \<open>
  What a lenient verifier can raise: CredentialsInvalid, or the \<open>TypeError\<close> of the
  call of the schema.
\<close>

lemma lenient_cookie_errors:
  assumes "AuthorizeRefreshCookieUser st a r = Inl e"
  shows "e = CredentialsInvalid \<or> e = TypeError"
proof (cases "py_not a \<or> py_not r")
  case True
  with assms show ?thesis by (simp add: AuthorizeRefreshCookieUser_def)
next
  case False
  show ?thesis
  proof (cases "jwt_decode st (the a) (jwt_access_secret_key st) [jwt_algorithm st] False")
    case (Inl x)
    with False assms jwt_decode_lenient_not_expired [of st "the a" "jwt_access_secret_key st" "[jwt_algorithm st]"]
    show ?thesis by (cases x) (auto simp: AuthorizeRefreshCookieUser_def)
  next
    case (Inr payload)
    show ?thesis
    proof (cases "TokenUser_new payload (the a) r")
      case (Inl x)
      with TokenUser_new_errors [OF Inl] Inr False assms
      show ?thesis by (auto simp: AuthorizeRefreshCookieUser_def)
    next
      case (Inr u)
      with \<open>jwt_decode st (the a) (jwt_access_secret_key st) [jwt_algorithm st] False = Inr payload\<close>
        False assms
      show ?thesis by (simp add: AuthorizeRefreshCookieUser_def)
    qed
  qed
qed

lemma lenient_body_agrees:
  "AuthorizeTokenRefresh st t = AuthorizeRefreshCookieUser st (rq_access_token t) (rq_refresh_token t)"
  by (simp add: AuthorizeTokenRefresh_def AuthorizeRefreshCookieUser_def cong: sum.case_cong)

lemma lenient_body_errors:
  assumes "AuthorizeTokenRefresh st t = Inl e"
  shows "e = CredentialsInvalid \<or> e = TypeError"
  using assms lenient_cookie_errors by (simp add: lenient_body_agrees)

text \<open>
  Claim C9, evaluated on the two expiry-lenient verifiers. They never raise
  TokenExpired: decoding with \<open>verify_exp\<close> false never raises
  \<open>ExpiredSignatureError\<close>, so the handler of that error is not reached. Their three
  handlers turn the errors of the decoding and of the validation into
  CredentialsInvalid, but not the \<open>TypeError\<close> of the call of the schema: for a token
  that verifies and whose payload has a claim named \<open>access_token\<close>, both verifiers
  leave with \<open>TypeError\<close>, a failure that is not CredentialsInvalid.
\<close>

theorem lenient_verifier_type_error:
  "AuthorizeRefreshCookieUser st a r \<noteq> Inl TokenExpired
   \<and> AuthorizeTokenRefresh st t \<noteq> Inl TokenExpired
   \<and> jwt_decode st token key algorithms False \<noteq> Inl ExpiredSignatureError
   \<and> jws_verify settings_ex ''at.collide'' (jwt_access_secret_key settings_ex) [jwt_algorithm settings_ex]
       = Some claims_collide
   \<and> claims_collide ''access_token'' = Some (JStr ''x'')
   \<and> AuthorizeRefreshCookieUser settings_ex (Some ''at.collide'') (Some ''rt1.42'') = Inl TypeError
   \<and> AuthorizeTokenRefresh settings_ex
         \<lparr>rq_access_token = Some ''at.collide'', rq_refresh_token = Some ''rt1.42''\<rparr>
       = Inl TypeError"
proof -
  have a1: "AuthorizeRefreshCookieUser st a r \<noteq> Inl TokenExpired"
    using lenient_cookie_errors [of st a r TokenExpired] by auto
  have a2: "AuthorizeTokenRefresh st t \<noteq> Inl TokenExpired"
    using lenient_body_errors [of st t TokenExpired] by auto
  have at_input: "jws_verify settings_ex ''at.collide'' (jwt_access_secret_key settings_ex)
        [jwt_algorithm settings_ex] = Some claims_collide
      \<and> claims_collide ''access_token'' = Some (JStr ''x'')
      \<and> AuthorizeRefreshCookieUser settings_ex (Some ''at.collide'') (Some ''rt1.42'') = Inl TypeError
      \<and> AuthorizeTokenRefresh settings_ex
            \<lparr>rq_access_token = Some ''at.collide'', rq_refresh_token = Some ''rt1.42''\<rparr>
          = Inl TypeError"
    by (simp add: AuthorizeRefreshCookieUser_def AuthorizeTokenRefresh_def settings_ex_def py_not_def
          jwt_decode_def validate_sub_def sub_claim_def claims_collide_def TokenUser_new_def)
  show ?thesis
    using a1 a2 at_input jwt_decode_lenient_not_expired by blast
qed

section \<open>Properties of the session lifecycle\<close>

lemmas store_defs = token_dal_insert_def user_dal_get_user_from_email_def
  user_dal_update_last_login_def session_commit_def session_rollback_def session_close_def
  executed_def

text \<open>
  The two descriptions of the class agree: the methods it defines are the three names
  of the source file.
\<close>

lemma RefreshTokenDAL_defines: "defined_methods RefreshTokenDAL = RefreshTokenDAL_methods"
  by (simp add: defined_methods_def RefreshTokenDAL_def RefreshTokenDAL_methods_def)

text \<open>
  Claim C4, evaluated on the class of db/crud/crud_token.py. The store of the claim
  offers \<open>exists\<close>, \<open>get\<close>, \<open>insert\<close>, \<open>update\<close> and \<open>delete\<close> by the natural key.
  The class defines \<open>insert\<close> only: looking up any of the other four raises
  \<open>AttributeError\<close>, which the logout handler answers with 404 whether or not the record
  exists. The two operations the class has instead select on the user id alone: with two
  records of user 42, \<open>exists_by_user_id\<close> holds although no record has the access token
  asked for, and \<open>delete_by_user_id\<close> removes both records where a delete by the natural
  key removes one.
\<close>

theorem store_natural_key_operations_missing:
  "RefreshTokenDAL_getattr ''insert'' = Inr ''insert''
   \<and> RefreshTokenDAL_getattr ''exists'' = Inl AttributeError
   \<and> RefreshTokenDAL_getattr ''get'' = Inl AttributeError
   \<and> RefreshTokenDAL_getattr ''update'' = Inl AttributeError
   \<and> RefreshTokenDAL_getattr ''delete'' = Inl AttributeError
   \<and> fst (api_logout_except AttributeError (get_session database_two no_fault))
       = Returned (JSONResponse ''Invalid Refresh Token'' 404)
   \<and> filter (natural_key 42 ''at0.42'') (tokens (get_session database_two no_fault)) = []
   \<and> token_dal_exists_by_user_id 42 (get_session database_two no_fault)
       = Inr (True, (get_session database_two no_fault)\<lparr>log := [Executed OpExistsByUserId]\<rparr>)
   \<and> token_dal_delete_by_user_id 42 (get_session database_two no_fault)
       = Inr ((get_session database_two no_fault)\<lparr>tokens := [], log := [Executed OpDeleteByUserId]\<rparr>)
   \<and> token_dal_delete 42 ''at1.42'' (get_session database_two no_fault)
       = Inr ((get_session database_two no_fault)\<lparr>tokens := [token_other], log := [Executed OpDelete]\<rparr>)"
  by (simp add: RefreshTokenDAL_getattr_def RefreshTokenDAL_methods_def api_logout_except_def
        JSONResponse_def session_close_def session_rollback_def
        token_dal_exists_by_user_id_def token_dal_delete_by_user_id_def token_dal_delete_def
        executed_def get_session_def database_two_def database_ex_def no_fault_def natural_key_def
        token_ex_def token_other_def)

text \<open>
  Claim C1, evaluated on the two refresh handlers. The claim has them raise
  CredentialsInvalid when the record is missing or the refresh token differs. Both
  handlers start with \<open>token_dal.get\<close>, which the class does not define: on every
  token and every session they leave with \<open>AttributeError\<close> before anything is
  compared, and the session is as it was (which is also why nothing is updated or
  committed). This is the defect of claim C4.
\<close>

theorem refresh_raises_attribute_error:
  "api_token_refresh dp token session = (Raised AttributeError, session)
   \<and> web_token_refresh dp token session = (Raised AttributeError, session)
   \<and> api_token_refresh deps_ex user_unknown_access (get_session database_ex no_fault)
       \<noteq> (Raised CredentialsInvalid, get_session database_ex no_fault)
   \<and> web_token_refresh deps_ex user_wrong_refresh (get_session database_ex no_fault)
       \<noteq> (Raised CredentialsInvalid, get_session database_ex no_fault)"
  by (simp add: api_token_refresh_def web_token_refresh_def RefreshTokenDAL_def)




text \<open>
  Claim C7, evaluated on the two logout handlers. The claim has the first of two logouts
  delete the record and succeed. Both handlers start with \<open>token_dal.exists\<close>, which
  the class does not define (the defect of claim C4): the \<open>AttributeError\<close> is raised
  inside the \<open>try\<close> block and caught by \<open>except Exception\<close>, so on every token and
  every session the logout is rolled back and answered with status 404, by
  \<open>Invalid Refresh Token\<close> for the API and \<open>Token Expired fail\<close> for the web, with no
  delete and no commit. With the record of user 42 stored, the first logout already
  answers 404 and the record stays.
\<close>

theorem logout_always_not_found:
  "api_logout token session
     = (Returned \<lparr>status_code = 404, content = Message ''Invalid Refresh Token'', cookies = []\<rparr>,
        session\<lparr>tokens := d_tokens (db session), last_login := d_last_login (db session),
                log := log session @ [RolledBack, Closed]\<rparr>)
   \<and> web_logout token session
     = (Returned \<lparr>status_code = 404, content = Message ''Token Expired fail'', cookies = []\<rparr>,
        session\<lparr>tokens := d_tokens (db session), last_login := d_last_login (db session),
                log := log session @ [RolledBack, Closed]\<rparr>)
   \<and> filter (natural_key 42 (tu_access_token user_ex)) (d_tokens database_ex) = [token_ex]
   \<and> classify (fst (api_logout user_ex (get_session database_ex no_fault))) = Inr 404
   \<and> d_tokens (db (snd (api_logout user_ex (get_session database_ex no_fault)))) = [token_ex]
   \<and> classify (fst (web_logout user_ex (get_session database_ex no_fault))) = Inr 404
   \<and> d_tokens (db (snd (web_logout user_ex (get_session database_ex no_fault)))) = [token_ex]"
  by (simp add: api_logout_def web_logout_def api_logout_except_def web_logout_except_def
        RefreshTokenDAL_def JSONResponse_def session_rollback_def session_close_def classify_def
        natural_key_def user_ex_def database_ex_def token_ex_def get_session_def)

text \<open>
  Claim C8. Whenever a login handler answers with success, the committed token table is
  the table of the session with one record added: the user's id, the access token in
  plain, the encryption of the refresh token, the keyed digest of the refresh token, the
  issue time derived from the pair's \<open>iat\<close> and the expiry derived from the refresh
  token's expiry. The committed last-login metadata carries the client's address for
  that user, and the session executed the insert and the metadata update before its one
  commit. And there are such logins: when the user is found and authenticated, the
  two times of the pair are integers within range and the persistence layer fails no
  statement, the API handler answers 200 with the pair and the web handler answers 200
  with the message and the two httpOnly cookies, both leaving that session.
\<close>

theorem login_inserts_record:
  "((api_login dp request login_info session = (Returned r, s')
       \<or> web_login dp request login_info session = (Returned r, s'))
      \<and> status_code r = 200
    \<longrightarrow> (\<exists>u iat issued_at expires expires_at token.
           d_users (db session) (hmac_sha256 dp (lr_email login_info)) = Some u
         \<and> authenticate dp (Some u) (lr_password login_info)
         \<and> token = create_new_jwt_token dp (py_str (u_id u))
         \<and> py_int (ct_iat token) = Some iat
         \<and> fromtimestamp (utc_offset dp) iat = Inr issued_at
         \<and> py_int (ct_refresh_token_expires_in token) = Some expires
         \<and> fromtimestamp (utc_offset dp) expires = Inr expires_at
         \<and> d_tokens (db s') =
             tokens session @
               [\<lparr>tk_user_id = u_id u,
                 tk_access_token = ct_access_token token,
                 tk_refresh_token = aes_encrypt dp (ct_refresh_token token),
                 tk_refresh_token_key = hmac_sha256 dp (ct_refresh_token token),
                 tk_issued_at = issued_at,
                 tk_expires_at = expires_at\<rparr>]
         \<and> d_last_login (db s') = (last_login session)(u_id u \<mapsto> client_host request)
         \<and> log s' = log session @
              [Executed OpGetUser, Executed OpInsert, Executed OpUpdateLastLogin, Committed, Closed]))
   \<and> (\<not> fails session OpGetUser
      \<and> d_users (db session) (hmac_sha256 dp (lr_email login_info)) = Some user
      \<and> authenticate dp (Some user) (lr_password login_info)
      \<and> new_token = create_new_jwt_token dp (py_str (u_id user))
      \<and> py_int (ct_iat new_token) = Some t_iat
      \<and> fromtimestamp (utc_offset dp) t_iat = Inr t_issued
      \<and> py_int (ct_refresh_token_expires_in new_token) = Some t_exp
      \<and> fromtimestamp (utc_offset dp) t_exp = Inr t_expires
      \<and> \<not> fails session OpInsert \<and> \<not> fails session OpUpdateLastLogin \<and> \<not> fails session OpCommit
      \<and> row = \<lparr>tk_user_id = u_id user,
                 tk_access_token = ct_access_token new_token,
                 tk_refresh_token = aes_encrypt dp (ct_refresh_token new_token),
                 tk_refresh_token_key = hmac_sha256 dp (ct_refresh_token new_token),
                 tk_issued_at = t_issued,
                 tk_expires_at = t_expires\<rparr>
      \<and> final = session
           \<lparr>db := (db session)
              \<lparr>d_tokens := tokens session @ [row],
               d_last_login := (last_login session)(u_id user \<mapsto> client_host request)\<rparr>,
            tokens := tokens session @ [row],
            last_login := (last_login session)(u_id user \<mapsto> client_host request),
            log := log session @
              [Executed OpGetUser, Executed OpInsert, Executed OpUpdateLastLogin, Committed, Closed]\<rparr>
    \<longrightarrow> api_login dp request login_info session
          = (Returned \<lparr>status_code = 200, content = TokenContent new_token, cookies = []\<rparr>, final)
        \<and> web_login dp request login_info session
          = (Returned
               \<lparr>status_code = 200, content = Message ''login success'',
                cookies =
                  [\<lparr>ck_key = ''access_token'', ck_value = ct_access_token new_token,
                    ck_httponly = True, ck_max_age = None\<rparr>,
                   \<lparr>ck_key = ''refresh_token'', ck_value = ct_refresh_token new_token,
                    ck_httponly = True, ck_max_age = None\<rparr>]\<rparr>,
             final))"
proof (intro conjI impI)
  assume "(api_login dp request login_info session = (Returned r, s')
       \<or> web_login dp request login_info session = (Returned r, s'))
      \<and> status_code r = 200"
  then show "\<exists>u iat issued_at expires expires_at token.
           d_users (db session) (hmac_sha256 dp (lr_email login_info)) = Some u
         \<and> authenticate dp (Some u) (lr_password login_info)
         \<and> token = create_new_jwt_token dp (py_str (u_id u))
         \<and> py_int (ct_iat token) = Some iat
         \<and> fromtimestamp (utc_offset dp) iat = Inr issued_at
         \<and> py_int (ct_refresh_token_expires_in token) = Some expires
         \<and> fromtimestamp (utc_offset dp) expires = Inr expires_at
         \<and> d_tokens (db s') =
             tokens session @
               [\<lparr>tk_user_id = u_id u,
                 tk_access_token = ct_access_token token,
                 tk_refresh_token = aes_encrypt dp (ct_refresh_token token),
                 tk_refresh_token_key = hmac_sha256 dp (ct_refresh_token token),
                 tk_issued_at = issued_at,
                 tk_expires_at = expires_at\<rparr>]
         \<and> d_last_login (db s') = (last_login session)(u_id u \<mapsto> client_host request)
         \<and> log s' = log session @
              [Executed OpGetUser, Executed OpInsert, Executed OpUpdateLastLogin, Committed, Closed]"
    by (auto simp: api_login_def web_login_def RefreshTokenDAL_def store_defs login_failed_def
          token_of_schema_def JSONResponse_def set_cookie_def Let_def
          split: option.splits if_splits sum.splits)
next
  assume h: "\<not> fails session OpGetUser
      \<and> d_users (db session) (hmac_sha256 dp (lr_email login_info)) = Some user
      \<and> authenticate dp (Some user) (lr_password login_info)
      \<and> new_token = create_new_jwt_token dp (py_str (u_id user))
      \<and> py_int (ct_iat new_token) = Some t_iat
      \<and> fromtimestamp (utc_offset dp) t_iat = Inr t_issued
      \<and> py_int (ct_refresh_token_expires_in new_token) = Some t_exp
      \<and> fromtimestamp (utc_offset dp) t_exp = Inr t_expires
      \<and> \<not> fails session OpInsert \<and> \<not> fails session OpUpdateLastLogin \<and> \<not> fails session OpCommit
      \<and> row = \<lparr>tk_user_id = u_id user,
                 tk_access_token = ct_access_token new_token,
                 tk_refresh_token = aes_encrypt dp (ct_refresh_token new_token),
                 tk_refresh_token_key = hmac_sha256 dp (ct_refresh_token new_token),
                 tk_issued_at = t_issued,
                 tk_expires_at = t_expires\<rparr>
      \<and> final = session
           \<lparr>db := (db session)
              \<lparr>d_tokens := tokens session @ [row],
               d_last_login := (last_login session)(u_id user \<mapsto> client_host request)\<rparr>,
            tokens := tokens session @ [row],
            last_login := (last_login session)(u_id user \<mapsto> client_host request),
            log := log session @
              [Executed OpGetUser, Executed OpInsert, Executed OpUpdateLastLogin, Committed, Closed]\<rparr>"
  show "api_login dp request login_info session
          = (Returned \<lparr>status_code = 200, content = TokenContent new_token, cookies = []\<rparr>, final)"
    using h by (auto simp: api_login_def RefreshTokenDAL_def store_defs token_of_schema_def Let_def)
  show "web_login dp request login_info session
          = (Returned
               \<lparr>status_code = 200, content = Message ''login success'',
                cookies =
                  [\<lparr>ck_key = ''access_token'', ck_value = ct_access_token new_token,
                    ck_httponly = True, ck_max_age = None\<rparr>,
                   \<lparr>ck_key = ''refresh_token'', ck_value = ct_refresh_token new_token,
                    ck_httponly = True, ck_max_age = None\<rparr>]\<rparr>,
             final)"
    using h by (auto simp: web_login_def RefreshTokenDAL_def store_defs token_of_schema_def Let_def
                  JSONResponse_def set_cookie_def)
qed

text \<open>The theorem at the login of user 42 on the store with one record, for both handlers.\<close>

theorem login_inserts_record_witness:
  "fst (api_login deps_ex request_ex login_ex (get_session database_ex no_fault))
     = Returned \<lparr>status_code = 200, content = TokenContent (create_new_jwt_token deps_ex ''42''),
                 cookies = []\<rparr>
   \<and> fst (web_login deps_ex request_ex login_ex (get_session database_ex no_fault))
     = Returned \<lparr>status_code = 200, content = Message ''login success'',
                 cookies =
                   [\<lparr>ck_key = ''access_token'', ck_value = ''at2.42'', ck_httponly = True, ck_max_age = None\<rparr>,
                    \<lparr>ck_key = ''refresh_token'', ck_value = ''rt2.42'', ck_httponly = True, ck_max_age = None\<rparr>]\<rparr>
   \<and> d_tokens (db (snd (api_login deps_ex request_ex login_ex (get_session database_ex no_fault))))
     = [token_ex,
        \<lparr>tk_user_id = 42, tk_access_token = ''at2.42'', tk_refresh_token = ''enc:rt2.42'',
         tk_refresh_token_key = ''h:rt2.42'', tk_issued_at = 1000, tk_expires_at = 605800\<rparr>]
   \<and> d_tokens (db (snd (web_login deps_ex request_ex login_ex (get_session database_ex no_fault))))
     = [token_ex,
        \<lparr>tk_user_id = 42, tk_access_token = ''at2.42'', tk_refresh_token = ''enc:rt2.42'',
         tk_refresh_token_key = ''h:rt2.42'', tk_issued_at = 1000, tk_expires_at = 605800\<rparr>]
   \<and> log (snd (web_login deps_ex request_ex login_ex (get_session database_ex no_fault)))
     = [Executed OpGetUser, Executed OpInsert, Executed OpUpdateLastLogin, Committed, Closed]"
  using login_inserts_record [of deps_ex request_ex login_ex "get_session database_ex no_fault"
          "\<lparr>status_code = 200, content = TokenContent (create_new_jwt_token deps_ex ''42''), cookies = []\<rparr>"
          "snd (api_login deps_ex request_ex login_ex (get_session database_ex no_fault))"
          "\<lparr>u_id = 42, u_credential = ''pw''\<rparr>" "create_new_jwt_token deps_ex ''42''"
          1000 1000 605800 605800
          "\<lparr>tk_user_id = 42, tk_access_token = ''at2.42'', tk_refresh_token = ''enc:rt2.42'',
            tk_refresh_token_key = ''h:rt2.42'', tk_issued_at = 1000, tk_expires_at = 605800\<rparr>"
          "snd (api_login deps_ex request_ex login_ex (get_session database_ex no_fault))"]
  by (simp add: api_login_def web_login_def py_int_1000 py_int_605800 py_str_42 request_ex_def
        login_ex_def get_session_def database_ex_def no_fault_def deps_ex_def store_defs
        token_of_schema_def fromtimestamp_def RefreshTokenDAL_def JSONResponse_def set_cookie_def)

subsection \<open>The API and the web variant of a flow\<close>

lemma lenient_verifiers_agree:
  "AuthorizeTokenRefresh st \<lparr>rq_access_token = a, rq_refresh_token = r\<rparr> = AuthorizeRefreshCookieUser st a r"
  by (simp add: AuthorizeTokenRefresh_def AuthorizeRefreshCookieUser_def cong: sum.case_cong)

lemma login_sessions_agree:
  "snd (api_login dp request login_info s) = snd (web_login dp request login_info s)"
  by (auto simp: api_login_def web_login_def Let_def split: option.splits sum.splits)

lemma login_classes_agree:
  "classify (fst (api_login dp request login_info s)) = classify (fst (web_login dp request login_info s))"
  by (auto simp: api_login_def web_login_def Let_def classify_def login_failed_def JSONResponse_def
        set_cookie_def split: option.splits sum.splits)

lemma refresh_variants_agree:
  "snd (api_token_refresh dp token s) = snd (web_token_refresh dp token s)
   \<and> classify (fst (api_token_refresh dp token s)) = classify (fst (web_token_refresh dp token s))"
  by (simp add: api_token_refresh_def web_token_refresh_def RefreshTokenDAL_def)

lemma logout_variants_agree:
  "snd (api_logout token s) = snd (web_logout token s)
   \<and> classify (fst (api_logout token s)) = classify (fst (web_logout token s))"
  by (simp add: api_logout_def web_logout_def api_logout_except_def web_logout_except_def
        RefreshTokenDAL_def classify_def JSONResponse_def)

lemma login_encoding:
  "fst (api_login dp request login_info s) = Returned x \<Longrightarrow>
     (status_code x \<noteq> 200 \<longrightarrow> fst (web_login dp request login_info s) = Returned x)
   \<and> (status_code x = 200 \<longrightarrow>
        (\<exists>tok. x = \<lparr>status_code = 200, content = TokenContent tok, cookies = []\<rparr>
           \<and> fst (web_login dp request login_info s)
               = Returned
                   \<lparr>status_code = 200, content = Message ''login success'',
                    cookies =
                      [\<lparr>ck_key = ''access_token'', ck_value = ct_access_token tok,
                        ck_httponly = True, ck_max_age = None\<rparr>,
                       \<lparr>ck_key = ''refresh_token'', ck_value = ct_refresh_token tok,
                        ck_httponly = True, ck_max_age = None\<rparr>]\<rparr>))"
  by (auto simp: api_login_def web_login_def Let_def login_failed_def JSONResponse_def set_cookie_def
        split: option.splits sum.splits if_splits)

text \<open>
  Claim C10. On every input and every session, the API and the web variant of login
  leave the same session and fall in the same class (the exception raised or the status
  returned); an answer of login other than success is the same in both variants, and a
  success carries the pair in the body for the API and, for the web, the message with
  the access token and the refresh token of that pair in two httpOnly cookies. The two
  variants of refresh leave the same session and fall in the same class as well, as
  handlers on the same verified token and as routes on the same pair of credentials,
  which the body verifier and the cookie verifier treat alike; so do the two logout
  handlers on the same verified token.
\<close>

theorem api_web_equivalent:
  "snd (api_login dp request login_info s) = snd (web_login dp request login_info s)
   \<and> classify (fst (api_login dp request login_info s)) = classify (fst (web_login dp request login_info s))
   \<and> (\<forall>x. fst (api_login dp request login_info s) = Returned x \<longrightarrow>
         (status_code x \<noteq> 200 \<longrightarrow> fst (web_login dp request login_info s) = Returned x)
       \<and> (status_code x = 200 \<longrightarrow>
            (\<exists>tok. x = \<lparr>status_code = 200, content = TokenContent tok, cookies = []\<rparr>
               \<and> fst (web_login dp request login_info s)
                   = Returned
                       \<lparr>status_code = 200, content = Message ''login success'',
                        cookies =
                          [\<lparr>ck_key = ''access_token'', ck_value = ct_access_token tok,
                            ck_httponly = True, ck_max_age = None\<rparr>,
                           \<lparr>ck_key = ''refresh_token'', ck_value = ct_refresh_token tok,
                            ck_httponly = True, ck_max_age = None\<rparr>]\<rparr>)))
   \<and> snd (api_token_refresh dp token s) = snd (web_token_refresh dp token s)
   \<and> classify (fst (api_token_refresh dp token s)) = classify (fst (web_token_refresh dp token s))
   \<and> AuthorizeTokenRefresh st \<lparr>rq_access_token = a, rq_refresh_token = r\<rparr>
       = AuthorizeRefreshCookieUser st a r
   \<and> snd (api_token_refresh_route st dp \<lparr>rq_access_token = a, rq_refresh_token = r\<rparr> s)
       = snd (web_token_refresh_route st dp a r s)
   \<and> classify (fst (api_token_refresh_route st dp \<lparr>rq_access_token = a, rq_refresh_token = r\<rparr> s))
       = classify (fst (web_token_refresh_route st dp a r s))
   \<and> snd (api_logout token s) = snd (web_logout token s)
   \<and> classify (fst (api_logout token s)) = classify (fst (web_logout token s))"
proof -
  have routes: "snd (api_token_refresh_route st dp \<lparr>rq_access_token = a, rq_refresh_token = r\<rparr> s)
       = snd (web_token_refresh_route st dp a r s)
     \<and> classify (fst (api_token_refresh_route st dp \<lparr>rq_access_token = a, rq_refresh_token = r\<rparr> s))
       = classify (fst (web_token_refresh_route st dp a r s))"
    using refresh_variants_agree
    by (auto simp: api_token_refresh_route_def web_token_refresh_route_def lenient_verifiers_agree
          classify_def split: sum.splits)
  show ?thesis
    using routes login_sessions_agree [of dp request login_info s]
      login_classes_agree [of dp request login_info s]
      refresh_variants_agree [of dp token s]
      login_encoding [of dp request login_info s]
      logout_variants_agree [of token s]
      lenient_verifiers_agree [of st a r]
    by blast
qed

text \<open>
  The theorem at the login of user 42, which succeeds in both variants, and at the
  refresh of user 42, which leaves both variants with the same exception.
\<close>

theorem api_web_equivalent_witness:
  "fst (api_login deps_ex request_ex login_ex (get_session database_ex no_fault))
     = Returned \<lparr>status_code = 200, content = TokenContent (create_new_jwt_token deps_ex ''42''), cookies = []\<rparr>
   \<and> fst (web_login deps_ex request_ex login_ex (get_session database_ex no_fault))
     = Returned \<lparr>status_code = 200, content = Message ''login success'',
                 cookies =
                   [\<lparr>ck_key = ''access_token'', ck_value = ''at2.42'', ck_httponly = True, ck_max_age = None\<rparr>,
                    \<lparr>ck_key = ''refresh_token'', ck_value = ''rt2.42'', ck_httponly = True, ck_max_age = None\<rparr>]\<rparr>
   \<and> snd (web_login deps_ex request_ex login_ex (get_session database_ex no_fault))
     = snd (api_login deps_ex request_ex login_ex (get_session database_ex no_fault))
   \<and> api_token_refresh_route settings_ex deps_ex
        \<lparr>rq_access_token = Some ''at1.42'', rq_refresh_token = Some ''rt1.42''\<rparr>
        (get_session database_ex no_fault)
     = (Raised AttributeError, get_session database_ex no_fault)
   \<and> web_token_refresh_route settings_ex deps_ex (Some ''at1.42'') (Some ''rt1.42'')
        (get_session database_ex no_fault)
     = (Raised AttributeError, get_session database_ex no_fault)"
  using api_web_equivalent [of deps_ex request_ex login_ex "get_session database_ex no_fault"
          user_ex settings_ex "Some ''at1.42''" "Some ''rt1.42''"]
  by (simp add: api_login_def web_login_def api_token_refresh_def web_token_refresh_def
        api_token_refresh_route_def web_token_refresh_route_def
        AuthorizeTokenRefresh_def AuthorizeRefreshCookieUser_def settings_ex_def py_not_def
        jwt_decode_def validate_sub_def sub_claim_def claims_expired_def TokenUser_new_def
        py_int_1000 py_int_605800 py_str_42
        request_ex_def login_ex_def get_session_def database_ex_def no_fault_def
        deps_ex_def store_defs login_failed_def token_of_schema_def fromtimestamp_def
        RefreshTokenDAL_def JSONResponse_def set_cookie_def)

end
